theory Spec2Isabelle
  imports Complex_Main "HOL-Library.Log_Nat"
begin

section \<open>Floating point and text\<close>

text \<open>
  Python's floats and numpy's \<^verbatim>\<open>float64\<close> are binary64: every arithmetic result is
  the exact result rounded to the nearest value with 53 significant bits, ties to the
  even one. \<open>float64 x\<close> is that rounding of the real number \<open>x\<close>, with no bound on
  the exponent: it is binary64 on the range of its normal numbers, where every sample,
  clock reading, rate and length of an audio stream and their quotients lie.
  \<open>exponent x\<close> is the integer \<open>e\<close> with \<open>2\<^sup>e \<le> x < 2\<^sup>e\<^sup>+\<^sup>1\<close>, for positive \<open>x\<close>.
  \<open>float32\<close> is the same rounding to 24 significant bits, numpy's \<^verbatim>\<open>float32\<close>.
\<close>

definition round_half_even :: "real \<Rightarrow> int" where
  "round_half_even m =
     (let f = \<lfloor>m\<rfloor>; d = m - of_int f
      in if d < 1 / 2 then f else if 1 / 2 < d then f + 1 else if even f then f else f + 1)"

definition exponent :: "real \<Rightarrow> int" where
  "exponent x = (if 1 \<le> x then bitlen \<lfloor>x\<rfloor> - 1 else - bitlen (\<lceil>1 / x\<rceil> - 1))"

definition float64 :: "real \<Rightarrow> real" where
  "float64 x =
     (if x = 0 then 0
      else (let s = 2 powi (exponent \<bar>x\<bar> - 52)
            in sgn x * of_int (round_half_even (\<bar>x\<bar> / s)) * s))"

definition float32 :: "real \<Rightarrow> real" where
  "float32 x =
     (if x = 0 then 0
      else (let s = 2 powi (exponent \<bar>x\<bar> - 23)
            in sgn x * of_int (round_half_even (\<bar>x\<bar> / s)) * s))"

text \<open>
  Python's \<^verbatim>\<open>int(x)\<close> on a float and numpy's conversion of a float in range to an
  integer type: the fraction is dropped.
\<close>

definition py_int :: "real \<Rightarrow> int" where
  "py_int x = (if 0 \<le> x then \<lfloor>x\<rfloor> else \<lceil>x\<rceil>)"

text \<open>
  A Python \<^verbatim>\<open>str\<close> is a sequence of Unicode code points: a list of natural numbers.
  \<open>ascii\<close> reads a literal of the source. \<open>is_space\<close> is the white space that
  \<^verbatim>\<open>str.strip()\<close> removes: the code points 9 to 13, 28 to 32, 133 (next line), 160
  (no-break space), 5760, 8192 to 8202, 8232, 8233, 8239, 8287 and 12288.
\<close>

type_synonym pystr = "nat list"

definition ascii :: "string \<Rightarrow> pystr" where
  "ascii s = map of_char s"

definition is_space :: "nat \<Rightarrow> bool" where
  "is_space c \<longleftrightarrow>
     (9 \<le> c \<and> c \<le> 13) \<or> (28 \<le> c \<and> c \<le> 32) \<or> c = 133 \<or> c = 160 \<or> c = 5760
     \<or> (8192 \<le> c \<and> c \<le> 8202) \<or> c = 8232 \<or> c = 8233 \<or> c = 8239 \<or> c = 8287
     \<or> c = 12288"

definition strip :: "pystr \<Rightarrow> pystr" where
  "strip s = rev (dropWhile is_space (rev (dropWhile is_space s)))"

text \<open>\<^verbatim>\<open>sep.join(parts)\<close>.\<close>

fun join :: "pystr \<Rightarrow> pystr list \<Rightarrow> pystr" where
  "join sep [] = []"
| "join sep [p] = p"
| "join sep (p # q # ps) = p @ sep @ join sep (q # ps)"

section \<open>The voice agent's data model\<close>

text \<open>
  The definitions follow \<^verbatim>\<open>src/aqlinks/agent/voice_agent.py\<close>. The agent object is a
  record that every method takes and returns. The observers (\<^verbatim>\<open>on_state_change\<close>,
  \<^verbatim>\<open>on_transcript\<close>, \<^verbatim>\<open>on_response\<close>) are optional callables in the source; the record
  holds whether one is registered and the list of values it has been called with, in
  order. A registered observer is taken to return normally. The external collaborators
  (recogniser, generation service, synthesis service) are function parameters whose
  result is either an exception or a value; every call made to one is written to the
  \<open>calls\<close> log. The fields of the transport (signalling channel, peer connection,
  outbound track) and the configuration of the room and of the recogniser's model size
  take no part in the operations below and are left out.
\<close>

datatype AgentState = DISCONNECTED | CONNECTING | CONNECTED | PROCESSING | SPEAKING

text \<open>
  A chat message is the dictionary \<^verbatim>\<open>{"role": r, "content": c}\<close>: the pair \<open>(r, c)\<close>
  of the role, one of three literals of the source, and the content.
\<close>

type_synonym message = "string \<times> pystr"

datatype exc = Exception string

datatype call =
    STT "real list"
  | LLM string "message list"
  | TTS string pystr

record AgentConfig =
  llm_model :: string
  llm_instructions :: pystr
  tts_voice :: string
  sample_rate :: int
  channels :: int
  vad_threshold :: real
  silence_duration :: real

definition default_config :: AgentConfig where
  "default_config =
     \<lparr> llm_model = ''gpt-4'',
       llm_instructions = ascii ''You are a helpful AI assistant in a voice conversation. Keep your responses concise and natural.'',
       tts_voice = ''alloy'',
       sample_rate = 48000,
       channels = 1,
       vad_threshold = float64 (1 / 100000000),
       silence_duration = 3 / 2 \<rparr>"

record VoiceAgent =
  state :: AgentState
  audio_buffer :: "int list list"
  speech_buffer :: "int list list"
  is_speaking :: bool
  last_speech_time :: real
  conversation_history :: "message list"
  on_state_change :: bool
  on_transcript :: bool
  on_response :: bool
  state_changes :: "AgentState list"
  transcripts :: "pystr list"
  responses :: "pystr list"
  calls :: "call list"
  spawned :: nat

text \<open>The agent as \<^verbatim>\<open>__init__\<close> leaves it; the arguments say which observers are registered.\<close>

definition init_agent :: "bool \<Rightarrow> bool \<Rightarrow> bool \<Rightarrow> VoiceAgent" where
  "init_agent osc otr ore =
     \<lparr> state = DISCONNECTED,
       audio_buffer = [],
       speech_buffer = [],
       is_speaking = False,
       last_speech_time = 0,
       conversation_history = [],
       on_state_change = osc,
       on_transcript = otr,
       on_response = ore,
       state_changes = [],
       transcripts = [],
       responses = [],
       calls = [],
       spawned = 0 \<rparr>"

section \<open>The session state machine\<close>

text \<open>
  \<^verbatim>\<open>_set_state\<close>: when the requested state differs from the current one, the state is
  assigned and the registered observer is called with the new state.
\<close>

definition set_state :: "AgentState \<Rightarrow> VoiceAgent \<Rightarrow> VoiceAgent" where
  "set_state s a =
     (if state a \<noteq> s
      then (if on_state_change a
            then a\<lparr>state := s, state_changes := state_changes a @ [s]\<rparr>
            else a\<lparr>state := s\<rparr>)
      else a)"

text \<open>
  The transitions that section 4.3 of the specification lists, written from the
  specification's words for comparison with \<open>set_state\<close>.
\<close>

fun legal_transition :: "AgentState \<Rightarrow> AgentState \<Rightarrow> bool" where
  "legal_transition _ DISCONNECTED = True"
| "legal_transition DISCONNECTED CONNECTING = True"
| "legal_transition CONNECTING CONNECTED = True"
| "legal_transition CONNECTED PROCESSING = True"
| "legal_transition PROCESSING SPEAKING = True"
| "legal_transition SPEAKING CONNECTED = True"
| "legal_transition _ _ = False"

section \<open>The conversation pipeline\<close>

text \<open>
  \<^verbatim>\<open>_transcribe_audio\<close>: the utterance's samples are converted to \<^verbatim>\<open>float32\<close> and
  divided by 32767.0 in that format, and handed to the recogniser, whose ordered segment
  texts are joined with single spaces and trimmed. Every exception inside the method
  (the recogniser's, and the one that taking the minimum of an empty array raises while
  the prepared audio is logged, before the recogniser is reached) is caught, and the
  transcript is then the empty string.
\<close>

definition transcribe_audio ::
  "(real list \<Rightarrow> exc + pystr list) \<Rightarrow> int list \<Rightarrow> VoiceAgent \<Rightarrow> pystr \<times> VoiceAgent" where
  "transcribe_audio stt audio_data a =
     (let audio_float = map (\<lambda>s. float32 (real_of_int s / 32767)) audio_data in
      if audio_float = [] then ([], a)
      else
        (let a1 = a\<lparr>calls := calls a @ [STT audio_float]\<rparr> in
         case stt audio_float of
           Inl e \<Rightarrow> ([], a1)
         | Inr segments \<Rightarrow> (strip (join (ascii '' '') segments), a1)))"

text \<open>Python's slice \<^verbatim>\<open>h[-n:]\<close>: the last \<open>n\<close> entries, all of them when there are fewer.\<close>

definition keep_last :: "nat \<Rightarrow> 'a list \<Rightarrow> 'a list" where
  "keep_last n h = drop (length h - n) h"

definition fallback_reply :: pystr where
  "fallback_reply = ascii ''I apologize, but I encountered an error processing your request.''"

text \<open>
  \<^verbatim>\<open>_get_llm_response\<close>: the user turn is appended, the history is cut to its last ten
  entries when it is longer (\<^verbatim>\<open>history[-10:]\<close>), the system instructions and the history are
  sent to the generation service (with the fixed output bound 150 and temperature 0.7,
  not modelled), and the reply is appended as an assistant turn. Any exception is caught
  and the fixed fallback text returned; the user turn, appended before the call, stays.
\<close>

definition get_llm_response ::
  "(string \<Rightarrow> message list \<Rightarrow> exc + pystr) \<Rightarrow> AgentConfig \<Rightarrow> pystr \<Rightarrow> VoiceAgent
     \<Rightarrow> pystr \<times> VoiceAgent" where
  "get_llm_response llm cfg text a =
     (let h1 = conversation_history a @ [(''user'', text)];
          h2 = (if length h1 > 10 then keep_last 10 h1 else h1);
          messages = (''system'', llm_instructions cfg) # h2;
          a1 = a\<lparr>conversation_history := h2,
                 calls := calls a @ [LLM (llm_model cfg) messages]\<rparr>
      in case llm (llm_model cfg) messages of
           Inl e \<Rightarrow> (fallback_reply, a1)
         | Inr response_text \<Rightarrow>
             (response_text,
              a1\<lparr>conversation_history := h2 @ [(''assistant'', response_text)]\<rparr>))"

text \<open>
  Generation services for concrete runs: one that always answers with the given reply,
  one that always raises. \<open>chat\<close> passes a list of user texts through
  \<open>get_llm_response\<close>, one call after the other.
\<close>

definition replying :: "pystr \<Rightarrow> string \<Rightarrow> message list \<Rightarrow> exc + pystr" where
  "replying reply model messages = Inr reply"

definition raising :: "string \<Rightarrow> string \<Rightarrow> message list \<Rightarrow> exc + pystr" where
  "raising what model messages = Inl (Exception what)"

fun chat ::
  "(string \<Rightarrow> message list \<Rightarrow> exc + pystr) \<Rightarrow> AgentConfig \<Rightarrow> VoiceAgent \<Rightarrow> pystr list
     \<Rightarrow> VoiceAgent" where
  "chat llm cfg a [] = a"
| "chat llm cfg a (t # ts) = chat llm cfg (snd (get_llm_response llm cfg t a)) ts"

text \<open>
  \<^verbatim>\<open>_synthesize_and_send\<close>: the state becomes Speaking, the synthesis service is called
  with the configured voice and the text, and the \<^verbatim>\<open>finally\<close> clause sets the state to
  Connected whether the call and the delivery succeed or raise. The delivery of the
  synthesised samples to the outbound track (resampling, 20 ms chunks, pacing) writes
  only to the track's queue, which the record does not hold.
\<close>

definition synthesize_and_send ::
  "(string \<Rightarrow> pystr \<Rightarrow> exc + int list) \<Rightarrow> AgentConfig \<Rightarrow> pystr \<Rightarrow> VoiceAgent \<Rightarrow> VoiceAgent" where
  "synthesize_and_send tts cfg text a =
     (let a1 = set_state SPEAKING a;
          a2 = a1\<lparr>calls := calls a1 @ [TTS (tts_voice cfg) text]\<rparr>
      in case tts (tts_voice cfg) text of
           Inl e \<Rightarrow> set_state CONNECTED a2
         | Inr audio_data \<Rightarrow> set_state CONNECTED a2)"

text \<open>
  \<^verbatim>\<open>_process_speech\<close>, one turn, run without interleaving: nothing happens on an empty
  utterance buffer; otherwise Processing, transcription, the transcript observer, the
  early return on a blank transcript, generation, the reply observer, synthesis, and
  the \<^verbatim>\<open>finally\<close> clause that sets Connected on every path after the first line.
\<close>

definition process_speech ::
  "(real list \<Rightarrow> exc + pystr list) \<Rightarrow> (string \<Rightarrow> message list \<Rightarrow> exc + pystr)
     \<Rightarrow> (string \<Rightarrow> pystr \<Rightarrow> exc + int list) \<Rightarrow> AgentConfig \<Rightarrow> VoiceAgent \<Rightarrow> VoiceAgent" where
  "process_speech stt llm tts cfg a =
     (if speech_buffer a = [] then a
      else
        (let a1 = set_state PROCESSING a;
             audio_array = concat (speech_buffer a1);
             (transcript, a2) = transcribe_audio stt audio_array a1;
             a3 = (if on_transcript a2
                   then a2\<lparr>transcripts := transcripts a2 @ [transcript]\<rparr> else a2)
         in if strip transcript = []
            then set_state CONNECTED (set_state CONNECTED a3)
            else
              (let (response_text, a4) = get_llm_response llm cfg transcript a3;
                   a5 = (if on_response a4
                         then a4\<lparr>responses := responses a4 @ [response_text]\<rparr> else a4);
                   a6 = synthesize_and_send tts cfg response_text a5
               in set_state CONNECTED a6)))"

section \<open>The audio ingest pipeline\<close>

text \<open>
  A frame reaches the detection as the array that the resampling to 16 kHz returns: a
  list of binary64 values. The energy of a frame is
  \<^verbatim>\<open>np.sqrt(np.mean(audio_data ** 2))\<close>: each square and the square root are rounded to
  binary64; the mean is numpy's reduction, whose order of additions is numpy's own, and
  is the parameter \<open>np_mean\<close>, read on a non-empty list only. The mean of an empty
  array is not a number, and a comparison with it is false. A frame of a 16 kHz source
  skips the resampling and is a \<^verbatim>\<open>float32\<close> array, on which the same operations round
  to 24 bits; such frames are not covered.
\<close>

datatype energy = NaN | Energy real

definition rms_energy :: "(real list \<Rightarrow> real) \<Rightarrow> real list \<Rightarrow> energy" where
  "rms_energy np_mean audio_data =
     (if audio_data = [] then NaN
      else Energy (float64 (sqrt (np_mean (map (\<lambda>v. float64 (v\<^sup>2)) audio_data)))))"

definition energy_gt :: "energy \<Rightarrow> real \<Rightarrow> bool" where
  "energy_gt e t = (case e of NaN \<Rightarrow> False | Energy v \<Rightarrow> v > t)"

text \<open>The literal \<^verbatim>\<open>0.05\<close> of \<^verbatim>\<open>_detect_speech\<close>, a binary64 value.\<close>

definition speech_threshold :: real where
  "speech_threshold = float64 (5 / 100)"

text \<open>
  \<^verbatim>\<open>_detect_speech\<close>, returning its result together with the value assigned to its
  local variable \<^verbatim>\<open>energy\<close> (\<open>None\<close> when the method returns before the assignment).
  The attribute \<^verbatim>\<open>_last_speech_state\<close> only selects a log line and is left out.
\<close>

definition detect_speech_run :: "(real list \<Rightarrow> real) \<Rightarrow> real list \<Rightarrow> bool \<times> energy option" where
  "detect_speech_run np_mean audio_data =
     (if length audio_data = 0 then (False, None)
      else (let energy = rms_energy np_mean audio_data
            in (energy_gt energy speech_threshold, Some energy)))"

definition detect_speech :: "(real list \<Rightarrow> real) \<Rightarrow> real list \<Rightarrow> bool" where
  "detect_speech np_mean audio_data = fst (detect_speech_run np_mean audio_data)"

text \<open>
  The mean for concrete runs on short frames: numpy adds an array of fewer than eight
  elements from left to right and divides the sum by the count.
\<close>

definition seq_mean :: "real list \<Rightarrow> real" where
  "seq_mean xs = float64 (foldl (\<lambda>r v. float64 (r + v)) 0 xs / real (length xs))"

text \<open>
  \<^verbatim>\<open>(audio_data * 32767).astype(np.int16)\<close> on samples clipped to \<open>[-1, 1]\<close>: the
  product is rounded to binary64 and the conversion drops the fraction.
\<close>

definition to_int16 :: "real \<Rightarrow> int" where
  "to_int16 v = py_int (float64 (v * 32767))"

text \<open>
  The body of the loop of \<^verbatim>\<open>_process_audio_track\<close> from the quantisation on, for one
  frame already normalised, amplified, clipped and resampled: \<open>current_time\<close> is the
  reading of the loop clock, a binary64 value, and \<open>audio_data\<close> the samples. The
  silence is the binary64 difference of two clock readings. Creating the
  \<^verbatim>\<open>_process_speech\<close> task is counted in \<open>spawned\<close>; the task reads the utterance from
  \<open>speech_buffer\<close>.
\<close>

definition process_frame ::
  "(real list \<Rightarrow> real) \<Rightarrow> AgentConfig \<Rightarrow> VoiceAgent \<Rightarrow> real \<Rightarrow> real list \<Rightarrow> VoiceAgent" where
  "process_frame np_mean cfg a current_time audio_data =
     (let audio_int16 = map to_int16 audio_data;
          a1 = a\<lparr>audio_buffer := audio_buffer a @ [audio_int16]\<rparr>
      in if state a1 = SPEAKING then a1
         else if detect_speech np_mean audio_data then
           (let a2 = a1\<lparr>last_speech_time := current_time\<rparr>;
                a3 = (if \<not> is_speaking a2
                      then a2\<lparr>is_speaking := True, speech_buffer := []\<rparr> else a2)
            in a3\<lparr>speech_buffer := speech_buffer a3 @ [audio_int16]\<rparr>)
         else if is_speaking a1 then
           (let silence = float64 (current_time - last_speech_time a1)
            in if silence \<ge> silence_duration cfg
               then a1\<lparr>is_speaking := False, spawned := spawned a1 + 1, audio_buffer := []\<rparr>
               else a1)
         else a1)"

text \<open>
  The loop over the frames of one inbound track, in arrival order. The session state is
  written by the turn task, which runs between two frames of the loop; each frame comes
  with the state in force when it is handled.
\<close>

fun process_audio_track ::
  "(real list \<Rightarrow> real) \<Rightarrow> AgentConfig \<Rightarrow> VoiceAgent \<Rightarrow> (AgentState \<times> real \<times> real list) list
     \<Rightarrow> VoiceAgent" where
  "process_audio_track np_mean cfg a [] = a"
| "process_audio_track np_mean cfg a ((st, current_time, audio_data) # frames) =
     process_audio_track np_mean cfg
       (process_frame np_mean cfg (a\<lparr>state := st\<rparr>) current_time audio_data) frames"

section \<open>Resampling\<close>

datatype py_error = ZeroDivisionError | ValueError

text \<open>
  \<^verbatim>\<open>np.linspace(start, stop, num)\<close> and \<^verbatim>\<open>np.interp(x, np.arange(len(fp)), fp)\<close>, with
  the sample values computed over the reals. \<open>interp_at\<close> is read on a non-empty
  \<open>fp\<close> only: \<^verbatim>\<open>np.interp\<close> raises on an empty array of sample points.
\<close>

definition linspace :: "real \<Rightarrow> real \<Rightarrow> nat \<Rightarrow> real list" where
  "linspace start stop num =
     (if num = 1 then [start]
      else map (\<lambda>i. start + real i * ((stop - start) / real (num - 1))) [0..<num])"

definition interp_at :: "real list \<Rightarrow> real \<Rightarrow> real" where
  "interp_at fp x =
     (let n = length fp
      in if x \<le> 0 then fp ! 0
         else if real (n - 1) \<le> x then fp ! (n - 1)
         else (let j = nat \<lfloor>x\<rfloor>
               in fp ! j + (fp ! (j + 1) - fp ! j) * (x - real j)))"

text \<open>
  The two lines of \<^verbatim>\<open>_resample_audio\<close> that compute the length of the result,
  \<^verbatim>\<open>ratio = target_sr / orig_sr\<close> and \<^verbatim>\<open>new_length = int(len(audio) * ratio)\<close>, for
  an input of \<open>n\<close> samples: the quotient, the conversion of the length and the
  product are each rounded to binary64.
\<close>

definition new_length :: "nat \<Rightarrow> int \<Rightarrow> int \<Rightarrow> int" where
  "new_length n orig_sr target_sr =
     (let ratio = float64 (real_of_int target_sr / real_of_int orig_sr)
      in py_int (float64 (float64 (real n) * ratio)))"

text \<open>
  \<^verbatim>\<open>_resample_audio\<close>. Equal rates return the input. Otherwise the division raises on
  a zero source rate, \<^verbatim>\<open>np.linspace\<close> raises on a negative number of samples and
  \<^verbatim>\<open>np.interp\<close> raises on an empty input array.
\<close>

definition resample_audio :: "real list \<Rightarrow> int \<Rightarrow> int \<Rightarrow> py_error + real list" where
  "resample_audio audio orig_sr target_sr =
     (if orig_sr = target_sr then Inr audio
      else if orig_sr = 0 then Inl ZeroDivisionError
      else
        (let m = new_length (length audio) orig_sr target_sr
         in if m < 0 then Inl ValueError
            else if audio = [] then Inl ValueError
            else
              (let indices = linspace 0 (real (length audio) - 1) (nat m)
               in Inr (map (interp_at audio) indices))))"

section \<open>Facts about the state machine\<close>

lemma set_state_fields [simp]:
  "state (set_state s a) = s"
  "calls (set_state s a) = calls a"
  "responses (set_state s a) = responses a"
  "transcripts (set_state s a) = transcripts a"
  "conversation_history (set_state s a) = conversation_history a"
  "speech_buffer (set_state s a) = speech_buffer a"
  "on_transcript (set_state s a) = on_transcript a"
  "on_response (set_state s a) = on_response a"
  "on_state_change (set_state s a) = on_state_change a"
  by (simp_all add: set_state_def)

lemma set_state_idem: "set_state s (set_state s a) = set_state s a"
  by (simp add: set_state_def)

lemma state_changes_set_state:
  "state_changes (set_state s a) =
     state_changes a @ (if on_state_change a \<and> state a \<noteq> s then [s] else [])"
  by (simp add: set_state_def)

section \<open>Claims about the state machine\<close>

text \<open>
  C2, as stated: the state-setting operation accepts a transition only if it is one of
  the legal transitions of section 4.3, and any other request leaves the state
  unchanged and fires no notification. The source has no transition table:
  the request from Disconnected to Speaking is not legal, yet it changes the state and
  notifies the observer.
\<close>

theorem set_state_illegal_counterexample:
  "\<not> legal_transition (state (init_agent True False False)) SPEAKING
   \<and> state (set_state SPEAKING (init_agent True False False)) = SPEAKING
   \<and> state_changes (set_state SPEAKING (init_agent True False False)) = [SPEAKING]"
  by (simp add: set_state_def init_agent_def)

text \<open>
  C2, amended: every request for a state different from the current one is accepted,
  whatever the pair; it makes the requested state current, notifies the registered
  observer exactly once with the new state and changes nothing else. A request for the
  current state changes nothing and notifies nobody.
\<close>

theorem set_state_accepts_every_change:
  "state (set_state t a) = t
   \<and> (state a = t \<longrightarrow> set_state t a = a)
   \<and> (state a \<noteq> t \<and> on_state_change a \<longrightarrow>
        set_state t a = a\<lparr>state := t, state_changes := state_changes a @ [t]\<rparr>)
   \<and> (state a \<noteq> t \<and> \<not> on_state_change a \<longrightarrow> set_state t a = a\<lparr>state := t\<rparr>)"
  by (simp add: set_state_def)

theorem set_state_accepts_every_change_witness:
  "state (set_state CONNECTING (init_agent True False False)) = CONNECTING
   \<and> set_state CONNECTING (init_agent True False False)
       = (init_agent True False False)\<lparr>state := CONNECTING, state_changes := [CONNECTING]\<rparr>
   \<and> set_state DISCONNECTED (init_agent True False False) = init_agent True False False
   \<and> set_state PROCESSING (init_agent False False False)
       = (init_agent False False False)\<lparr>state := PROCESSING\<rparr>"
  using set_state_accepts_every_change [of CONNECTING "init_agent True False False"]
        set_state_accepts_every_change [of DISCONNECTED "init_agent True False False"]
        set_state_accepts_every_change [of PROCESSING "init_agent False False False"]
  by (simp add: init_agent_def)

section \<open>Facts about the conversation pipeline\<close>

lemma trim_keep_last: "(if length h > n then keep_last n h else h) = keep_last n h"
  by (simp add: keep_last_def)

lemma length_keep_last: "length (keep_last n h) = min n (length h)"
  by (simp add: keep_last_def)

lemma keep_last_short: "length h \<le> n \<Longrightarrow> keep_last n h = h"
  by (simp add: keep_last_def)

lemma dropWhile_strip: "dropWhile is_space (strip s) = strip s"
proof (cases "dropWhile is_space s")
  case Nil
  show ?thesis unfolding strip_def Nil by simp
next
  case (Cons y ys)
  then have y: "\<not> is_space y"
    by (metis hd_dropWhile list.discI list.sel(1))
  have "\<exists>zs. dropWhile is_space (rev ys @ [y]) = zs @ [y]"
    using y by (simp add: dropWhile_append)
  then obtain zs where "dropWhile is_space (rev ys @ [y]) = zs @ [y]" ..
  then show ?thesis unfolding strip_def Cons using y by simp
qed

lemma strip_strip: "strip (strip s) = strip s"
proof -
  have "strip (strip s) = rev (dropWhile is_space (rev (strip s)))"
    unfolding strip_def [of "strip s"] by (simp only: dropWhile_strip)
  also have "\<dots> = strip s"
    by (simp add: strip_def)
  finally show ?thesis .
qed

lemma strip_Nil: "strip [] = []"
  by (simp add: strip_def)

lemma transcribe_audio_empty: "transcribe_audio stt [] a = ([], a)"
  by (simp add: transcribe_audio_def)

lemma transcribe_audio_ok:
  "audio \<noteq> [] \<Longrightarrow> stt (map (\<lambda>s. float32 (real_of_int s / 32767)) audio) = Inr segments \<Longrightarrow>
   transcribe_audio stt audio a =
     (strip (join (ascii '' '') segments),
      a\<lparr>calls := calls a @ [STT (map (\<lambda>s. float32 (real_of_int s / 32767)) audio)]\<rparr>)"
  by (simp add: transcribe_audio_def Let_def)

lemma transcribe_audio_failed:
  "audio \<noteq> [] \<Longrightarrow> stt (map (\<lambda>s. float32 (real_of_int s / 32767)) audio) = Inl e \<Longrightarrow>
   transcribe_audio stt audio a =
     ([], a\<lparr>calls := calls a @ [STT (map (\<lambda>s. float32 (real_of_int s / 32767)) audio)]\<rparr>)"
  by (simp add: transcribe_audio_def Let_def)

lemma get_llm_response_failed:
  "llm (llm_model cfg)
     ((''system'', llm_instructions cfg) # keep_last 10 (conversation_history a @ [(''user'', text)]))
     = Inl e \<Longrightarrow>
   get_llm_response llm cfg text a =
     (fallback_reply,
      a\<lparr>conversation_history := keep_last 10 (conversation_history a @ [(''user'', text)]),
        calls := calls a @ [LLM (llm_model cfg)
          ((''system'', llm_instructions cfg)
             # keep_last 10 (conversation_history a @ [(''user'', text)]))]\<rparr>)"
  unfolding get_llm_response_def Let_def trim_keep_last by simp

lemma get_llm_response_ok:
  "llm (llm_model cfg)
     ((''system'', llm_instructions cfg) # keep_last 10 (conversation_history a @ [(''user'', text)]))
     = Inr reply \<Longrightarrow>
   get_llm_response llm cfg text a =
     (reply,
      a\<lparr>conversation_history :=
          keep_last 10 (conversation_history a @ [(''user'', text)]) @ [(''assistant'', reply)],
        calls := calls a @ [LLM (llm_model cfg)
          ((''system'', llm_instructions cfg)
             # keep_last 10 (conversation_history a @ [(''user'', text)]))]\<rparr>)"
  unfolding get_llm_response_def Let_def trim_keep_last by simp

lemma synthesize_and_send_eq:
  "synthesize_and_send tts cfg text a =
     set_state CONNECTED ((set_state SPEAKING a)\<lparr>calls := calls a @ [TTS (tts_voice cfg) text]\<rparr>)"
  by (simp add: synthesize_and_send_def Let_def split: sum.splits)

lemma process_speech_blank:
  assumes "speech_buffer a \<noteq> []"
    and "transcribe_audio stt (concat (speech_buffer a)) (set_state PROCESSING a) = (tr, a2)"
    and "strip tr = []"
  shows "process_speech stt llm tts cfg a =
     set_state CONNECTED (if on_transcript a2 then a2\<lparr>transcripts := transcripts a2 @ [tr]\<rparr> else a2)"
  using assms by (simp add: process_speech_def Let_def set_state_idem)

lemma process_speech_reply:
  assumes "speech_buffer a \<noteq> []"
    and "transcribe_audio stt (concat (speech_buffer a)) (set_state PROCESSING a) = (tr, a2)"
    and "strip tr \<noteq> []"
    and "get_llm_response llm cfg tr
           (if on_transcript a2 then a2\<lparr>transcripts := transcripts a2 @ [tr]\<rparr> else a2) = (reply, a4)"
  shows "process_speech stt llm tts cfg a =
     set_state CONNECTED (synthesize_and_send tts cfg reply
        (if on_response a4 then a4\<lparr>responses := responses a4 @ [reply]\<rparr> else a4))"
  using assms by (simp add: process_speech_def Let_def)

text \<open>
  The history sent to the generation service holds at most ten entries, and after any
  call of \<open>get_llm_response\<close> the history holds at most eleven.
\<close>

lemma history_sent_le_10:
  "\<exists>h. last (calls (snd (get_llm_response llm cfg text a)))
         = LLM (llm_model cfg) ((''system'', llm_instructions cfg) # h)
       \<and> length h \<le> 10"
  unfolding get_llm_response_def Let_def trim_keep_last
  by (auto simp: length_keep_last split: sum.splits)

lemma history_after_call_le_11:
  "length (conversation_history (snd (get_llm_response llm cfg text a))) \<le> 11"
  unfolding get_llm_response_def Let_def trim_keep_last
  by (auto simp: length_keep_last split: sum.splits)

section \<open>Claims about the conversation history\<close>

text \<open>
  C1, as stated: the history never holds more than ten entries, after the append of a
  user turn and after the append of an assistant turn. The source trims to the last ten
  entries after the user turn only; the assistant turn is appended to the trimmed
  history and nothing trims it again before the method returns. Six turns with a
  successful reply, from the empty history of a new agent, leave eleven entries.
\<close>

theorem history_eleven_after_six_turns:
  "length (conversation_history
     (chat (replying (ascii ''ok'')) default_config (init_agent False False False)
        (map ascii [''one'', ''two'', ''three'', ''four'', ''five'', ''six'']))) = 11"
  by (simp add: get_llm_response_def replying_def keep_last_def init_agent_def Let_def)

text \<open>
  C9, as stated: on the error path the history is exactly one entry longer than before
  the call. The trim to the last ten entries runs on the error path too: with ten
  entries before the call (five successful turns), the failing sixth call leaves ten.
\<close>

theorem failed_call_on_full_history_counterexample:
  "length (conversation_history
     (chat (replying (ascii ''ok'')) default_config (init_agent False False False)
        (map ascii [''one'', ''two'', ''three'', ''four'', ''five'']))) = 10
   \<and> fst (get_llm_response (raising ''timeout'') default_config (ascii ''six'')
       (chat (replying (ascii ''ok'')) default_config (init_agent False False False)
          (map ascii [''one'', ''two'', ''three'', ''four'', ''five'']))) = fallback_reply
   \<and> length (conversation_history (snd
       (get_llm_response (raising ''timeout'') default_config (ascii ''six'')
         (chat (replying (ascii ''ok'')) default_config (init_agent False False False)
            (map ascii [''one'', ''two'', ''three'', ''four'', ''five'']))))) = 10"
  by (simp add: get_llm_response_def replying_def raising_def keep_last_def init_agent_def
      Let_def)

text \<open>
  C9, amended: when the generation call fails, the method returns the fallback text and
  the history is the last ten entries of the old history followed by the user turn; the
  fallback is not appended. With fewer than ten entries before the call that is the old
  history plus the user turn, one entry more. When the call succeeds and the history
  held at most eight entries, it is the old history plus the user turn plus the
  assistant turn, two entries more.
\<close>

theorem get_llm_response_history:
  "(llm (llm_model cfg)
       ((''system'', llm_instructions cfg) # keep_last 10 (conversation_history a @ [(''user'', text)]))
       = Inl e \<longrightarrow>
      fst (get_llm_response llm cfg text a) = fallback_reply
      \<and> conversation_history (snd (get_llm_response llm cfg text a))
          = keep_last 10 (conversation_history a @ [(''user'', text)])
      \<and> (length (conversation_history a) < 10 \<longrightarrow>
            conversation_history (snd (get_llm_response llm cfg text a))
              = conversation_history a @ [(''user'', text)]))
   \<and> (llm (llm_model cfg)
       ((''system'', llm_instructions cfg) # keep_last 10 (conversation_history a @ [(''user'', text)]))
       = Inr reply \<and> length (conversation_history a) \<le> 8 \<longrightarrow>
      fst (get_llm_response llm cfg text a) = reply
      \<and> conversation_history (snd (get_llm_response llm cfg text a))
          = conversation_history a @ [(''user'', text), (''assistant'', reply)])"
proof (intro conjI impI)
  assume f: "llm (llm_model cfg)
       ((''system'', llm_instructions cfg) # keep_last 10 (conversation_history a @ [(''user'', text)]))
       = Inl e"
  show "fst (get_llm_response llm cfg text a) = fallback_reply"
    by (simp add: get_llm_response_failed [of llm cfg a "text" e, OF f])
  show "conversation_history (snd (get_llm_response llm cfg text a))
          = keep_last 10 (conversation_history a @ [(''user'', text)])"
    by (simp add: get_llm_response_failed [of llm cfg a "text" e, OF f])
  assume "length (conversation_history a) < 10"
  then show "conversation_history (snd (get_llm_response llm cfg text a))
              = conversation_history a @ [(''user'', text)]"
    by (simp add: get_llm_response_failed [of llm cfg a "text" e, OF f] keep_last_short)
next
  assume s: "llm (llm_model cfg)
       ((''system'', llm_instructions cfg) # keep_last 10 (conversation_history a @ [(''user'', text)]))
       = Inr reply \<and> length (conversation_history a) \<le> 8"
  then have r: "get_llm_response llm cfg text a =
     (reply,
      a\<lparr>conversation_history :=
          keep_last 10 (conversation_history a @ [(''user'', text)]) @ [(''assistant'', reply)],
        calls := calls a @ [LLM (llm_model cfg)
          ((''system'', llm_instructions cfg)
             # keep_last 10 (conversation_history a @ [(''user'', text)]))]\<rparr>)"
    using get_llm_response_ok [of llm cfg a "text" reply] by blast
  show "fst (get_llm_response llm cfg text a) = reply"
    by (simp add: r)
  from s show "conversation_history (snd (get_llm_response llm cfg text a))
          = conversation_history a @ [(''user'', text), (''assistant'', reply)]"
    by (simp add: r keep_last_short)
qed

theorem get_llm_response_history_witness:
  "fst (get_llm_response (raising ''timeout'') default_config (ascii ''hello'')
          (init_agent False False False)) = fallback_reply
   \<and> conversation_history (snd (get_llm_response (raising ''timeout'')
          default_config (ascii ''hello'') (init_agent False False False))) = [(''user'', ascii ''hello'')]
   \<and> fst (get_llm_response (replying (ascii ''hi'')) default_config (ascii ''hello'')
          (init_agent False False False)) = ascii ''hi''
   \<and> conversation_history (snd (get_llm_response (replying (ascii ''hi''))
          default_config (ascii ''hello'') (init_agent False False False)))
       = [(''user'', ascii ''hello''), (''assistant'', ascii ''hi'')]"
  using get_llm_response_history [of "raising ''timeout''" default_config
          "init_agent False False False" "ascii ''hello''" "Exception ''timeout''" "ascii ''hi''"]
        get_llm_response_history [of "replying (ascii ''hi'')" default_config
          "init_agent False False False" "ascii ''hello''" "Exception ''timeout''" "ascii ''hi''"]
  by (simp add: init_agent_def keep_last_def raising_def replying_def)

section \<open>Claims about one turn of the pipeline\<close>

text \<open>
  C6: if transcription fails or returns text that is blank after trimming, the turn
  makes no generation call and no synthesis call, and the state returns directly to
  Connected. The turn runs on a non-empty utterance buffer; blank is what
  \<^verbatim>\<open>str.strip()\<close> leaves empty, so a transcript of no-break spaces is blank. Its only collaborator call
  is the recogniser's (none at all when the utterance has no samples, where the
  transcription fails before the recogniser is reached); the state ends Connected, the
  observer sees Processing and then Connected and never Speaking; the history and the
  list of notified replies are as before.
\<close>

theorem blank_transcript_ends_turn:
  assumes sb: "speech_buffer a \<noteq> []"
    and blank: "concat (speech_buffer a) = []
      \<or> (\<exists>e. stt (map (\<lambda>s. float32 (real_of_int s / 32767)) (concat (speech_buffer a))) = Inl e)
      \<or> (\<exists>segments. stt (map (\<lambda>s. float32 (real_of_int s / 32767)) (concat (speech_buffer a))) = Inr segments
            \<and> strip (join (ascii '' '') segments) = [])"
  shows "calls (process_speech stt llm tts cfg a) =
           calls a @ (if concat (speech_buffer a) = [] then []
                      else [STT (map (\<lambda>s. float32 (real_of_int s / 32767)) (concat (speech_buffer a)))])
     \<and> state (process_speech stt llm tts cfg a) = CONNECTED
     \<and> state_changes (process_speech stt llm tts cfg a) =
           state_changes a @ (if on_state_change a
                              then (if state a = PROCESSING then [] else [PROCESSING]) @ [CONNECTED]
                              else [])
     \<and> conversation_history (process_speech stt llm tts cfg a) = conversation_history a
     \<and> responses (process_speech stt llm tts cfg a) = responses a"
proof -
  define audio where "audio = concat (speech_buffer a)"
  define p where "p = set_state PROCESSING a"
  define a2 where "a2 = (if audio = [] then p
     else p\<lparr>calls := calls p @ [STT (map (\<lambda>s. float32 (real_of_int s / 32767)) audio)]\<rparr>)"
  have "\<exists>tr. transcribe_audio stt audio p = (tr, a2) \<and> strip tr = []"
  proof (cases "audio = []")
    case True
    then show ?thesis by (simp add: transcribe_audio_empty a2_def strip_Nil)
  next
    case False
    with blank consider e where "stt (map (\<lambda>s. float32 (real_of_int s / 32767)) audio) = Inl e"
      | segments where "stt (map (\<lambda>s. float32 (real_of_int s / 32767)) audio) = Inr segments"
          "strip (join (ascii '' '') segments) = []"
      unfolding audio_def by blast
    then show ?thesis
    proof cases
      case 1
      with False show ?thesis by (simp add: transcribe_audio_failed a2_def strip_Nil)
    next
      case 2
      with False show ?thesis by (simp add: transcribe_audio_ok a2_def strip_Nil)
    qed
  qed
  then obtain tr where t: "transcribe_audio stt audio p = (tr, a2)" and b: "strip tr = []"
    by blast
  define a3 where "a3 = (if on_transcript a2 then a2\<lparr>transcripts := transcripts a2 @ [tr]\<rparr> else a2)"
  have r: "process_speech stt llm tts cfg a = set_state CONNECTED a3"
    using process_speech_blank [OF sb t [unfolded audio_def p_def] b] by (simp add: a3_def)
  have f3: "calls a3 = calls a @ (if audio = [] then [] else [STT (map (\<lambda>s. float32 (real_of_int s / 32767)) audio)])"
    "state a3 = PROCESSING" "on_state_change a3 = on_state_change a"
    "conversation_history a3 = conversation_history a" "responses a3 = responses a"
    "state_changes a3 = state_changes p"
    by (simp_all add: a3_def a2_def p_def)
  show ?thesis
    unfolding r by (simp add: f3 state_changes_set_state p_def audio_def)
qed

theorem blank_transcript_ends_turn_witness:
  "calls (process_speech (\<lambda>audio. Inr [[160], [8195, 10]]) (replying (ascii ''hi'')) (\<lambda>v t. Inr [])
       default_config
       ((init_agent True True True)\<lparr>state := CONNECTED, speech_buffer := [[100, 200]]\<rparr>))
     = [STT [float32 (100 / 32767), float32 (200 / 32767)]]
   \<and> state (process_speech (\<lambda>audio. Inr [[160], [8195, 10]]) (replying (ascii ''hi'')) (\<lambda>v t. Inr [])
       default_config
       ((init_agent True True True)\<lparr>state := CONNECTED, speech_buffer := [[100, 200]]\<rparr>))
     = CONNECTED
   \<and> state_changes (process_speech (\<lambda>audio. Inr [[160], [8195, 10]]) (replying (ascii ''hi'')) (\<lambda>v t. Inr [])
       default_config
       ((init_agent True True True)\<lparr>state := CONNECTED, speech_buffer := [[100, 200]]\<rparr>))
     = [PROCESSING, CONNECTED]"
  using blank_transcript_ends_turn
    [of "(init_agent True True True)\<lparr>state := CONNECTED, speech_buffer := [[100, 200]]\<rparr>"
        "\<lambda>audio. Inr [[160], [8195, 10]]" "replying (ascii ''hi'')" "\<lambda>v t. Inr []" default_config]
  by (simp add: init_agent_def strip_def is_space_def ascii_def)

text \<open>
  C7: when the generation call fails, the reply text of the turn is the fixed fallback
  string, synthesis is still invoked with it, and the turn ends in Connected. The turn
  runs on an utterance whose transcript is not blank; the generation call, made with the
  system instructions and the trimmed history, raises. Then the calls of the turn are
  the recogniser's, the failed generation call and the synthesis call with the fallback
  text; the reply observer is notified of the fallback text; the state ends Connected
  whether synthesis succeeds or raises, after Processing and Speaking.
\<close>

theorem generation_failure_speaks_fallback:
  assumes sb: "speech_buffer a \<noteq> []"
    and au: "concat (speech_buffer a) \<noteq> []"
    and st: "stt (map (\<lambda>s. float32 (real_of_int s / 32767)) (concat (speech_buffer a))) = Inr segments"
    and nb: "strip (join (ascii '' '') segments) \<noteq> []"
    and ll: "llm (llm_model cfg) ((''system'', llm_instructions cfg) #
            keep_last 10 (conversation_history a @ [(''user'', strip (join (ascii '' '') segments))])) = Inl e"
  shows "calls (process_speech stt llm tts cfg a) = calls a @
           [STT (map (\<lambda>s. float32 (real_of_int s / 32767)) (concat (speech_buffer a))),
            LLM (llm_model cfg) ((''system'', llm_instructions cfg) #
              keep_last 10 (conversation_history a @ [(''user'', strip (join (ascii '' '') segments))])),
            TTS (tts_voice cfg) fallback_reply]
   \<and> responses (process_speech stt llm tts cfg a) =
         responses a @ (if on_response a then [fallback_reply] else [])
   \<and> state (process_speech stt llm tts cfg a) = CONNECTED
   \<and> state_changes (process_speech stt llm tts cfg a) =
         state_changes a @ (if on_state_change a
                            then (if state a = PROCESSING then [] else [PROCESSING]) @ [SPEAKING, CONNECTED]
                            else [])"
proof -
  define tr where "tr = strip (join (ascii '' '') segments)"
  define p where "p = set_state PROCESSING a"
  define a2 where "a2 = p\<lparr>calls := calls a @
     [STT (map (\<lambda>s. float32 (real_of_int s / 32767)) (concat (speech_buffer a)))]\<rparr>"
  define a3 where "a3 = (if on_transcript a2 then a2\<lparr>transcripts := transcripts a2 @ [tr]\<rparr> else a2)"
  define msgs where "msgs = (''system'', llm_instructions cfg) #
     keep_last 10 (conversation_history a @ [(''user'', tr)])"
  define a4 where "a4 = a3\<lparr>conversation_history := keep_last 10 (conversation_history a3 @ [(''user'', tr)]),
        calls := calls a3 @ [LLM (llm_model cfg) msgs]\<rparr>"
  define a5 where "a5 = (if on_response a4 then a4\<lparr>responses := responses a4 @ [fallback_reply]\<rparr> else a4)"
  have t: "transcribe_audio stt (concat (speech_buffer a)) (set_state PROCESSING a) = (tr, a2)"
    using au st by (simp add: transcribe_audio_ok tr_def a2_def p_def)
  have h3: "conversation_history a3 = conversation_history a" "calls a3 = calls a2"
    "on_response a3 = on_response a" "responses a3 = responses a"
    "state a3 = PROCESSING" "on_state_change a3 = on_state_change a"
    "state_changes a3 = state_changes p"
    by (simp_all add: a3_def a2_def p_def)
  have "llm (llm_model cfg) ((''system'', llm_instructions cfg) #
          keep_last 10 (conversation_history a3 @ [(''user'', tr)])) = Inl e"
    using ll by (simp add: h3 tr_def)
  from get_llm_response_failed [of llm cfg a3 tr e, OF this]
  have g: "get_llm_response llm cfg tr a3 = (fallback_reply, a4)"
    by (simp add: a4_def msgs_def h3)
  have nb': "strip tr \<noteq> []"
    using nb by (simp add: tr_def strip_strip)
  have r: "process_speech stt llm tts cfg a =
     set_state CONNECTED (synthesize_and_send tts cfg fallback_reply a5)"
    using process_speech_reply [OF sb t nb'] g unfolding a3_def a5_def by simp
  have f5: "calls a5 = calls a @
      [STT (map (\<lambda>s. float32 (real_of_int s / 32767)) (concat (speech_buffer a))), LLM (llm_model cfg) msgs]"
    "responses a5 = responses a @ (if on_response a then [fallback_reply] else [])"
    "state a5 = PROCESSING" "on_state_change a5 = on_state_change a"
    "state_changes a5 = state_changes p"
    by (simp_all add: a5_def a4_def h3 a2_def)
  show ?thesis
    unfolding r synthesize_and_send_eq
    by (simp add: f5 state_changes_set_state set_state_idem msgs_def tr_def p_def)
qed

theorem generation_failure_speaks_fallback_witness:
  "calls (process_speech (\<lambda>audio. Inr [ascii ''hello'']) (raising ''timeout'')
       (\<lambda>v t. Inl (Exception ''no voice'')) default_config
       ((init_agent True True True)\<lparr>state := CONNECTED, speech_buffer := [[100, 200]]\<rparr>))
     = [STT [float32 (100 / 32767), float32 (200 / 32767)],
        LLM (llm_model default_config)
          [(''system'', llm_instructions default_config), (''user'', ascii ''hello'')],
        TTS (tts_voice default_config) fallback_reply]
   \<and> responses (process_speech (\<lambda>audio. Inr [ascii ''hello'']) (raising ''timeout'')
       (\<lambda>v t. Inl (Exception ''no voice'')) default_config
       ((init_agent True True True)\<lparr>state := CONNECTED, speech_buffer := [[100, 200]]\<rparr>))
     = [fallback_reply]
   \<and> state (process_speech (\<lambda>audio. Inr [ascii ''hello'']) (raising ''timeout'')
       (\<lambda>v t. Inl (Exception ''no voice'')) default_config
       ((init_agent True True True)\<lparr>state := CONNECTED, speech_buffer := [[100, 200]]\<rparr>))
     = CONNECTED
   \<and> state_changes (process_speech (\<lambda>audio. Inr [ascii ''hello'']) (raising ''timeout'')
       (\<lambda>v t. Inl (Exception ''no voice'')) default_config
       ((init_agent True True True)\<lparr>state := CONNECTED, speech_buffer := [[100, 200]]\<rparr>))
     = [PROCESSING, SPEAKING, CONNECTED]"
  using generation_failure_speaks_fallback
    [of "(init_agent True True True)\<lparr>state := CONNECTED, speech_buffer := [[100, 200]]\<rparr>"
        "\<lambda>audio. Inr [ascii ''hello'']" "[ascii ''hello'']" "raising ''timeout''"
        default_config "Exception ''timeout''" "\<lambda>v t. Inl (Exception ''no voice'')"]
  by (simp add: init_agent_def strip_def is_space_def keep_last_def raising_def ascii_def)

section \<open>Facts about the rounding and the resampled length\<close>

lemma round_half_even_error: "\<bar>real_of_int (round_half_even m) - m\<bar> \<le> 1 / 2"
  unfolding round_half_even_def Let_def by (auto; linarith)

lemma round_half_even_nonneg: "0 \<le> m \<Longrightarrow> 0 \<le> round_half_even m"
  unfolding round_half_even_def Let_def by (auto; linarith)

lemma exponent_bounds:
  assumes "0 < x"
  shows "2 powi (exponent x) \<le> x \<and> x < 2 powi (exponent x + 1)"
proof (cases "1 \<le> x")
  case True
  define k where "k = \<lfloor>x\<rfloor>"
  have k: "0 < k" using True by (simp add: k_def)
  have b: "1 \<le> bitlen k" using k by (simp add: bitlen_alt_def)
  have e: "exponent x = bitlen k - 1" using True by (simp add: exponent_def k_def)
  from bitlen_bounds [OF k] have lo: "2 ^ nat (bitlen k - 1) \<le> k" and hi: "k < 2 ^ nat (bitlen k)"
    by simp_all
  have "(2::real) powi (bitlen k - 1) = 2 ^ nat (bitlen k - 1)"
    using b by (simp add: power_int_def)
  also have "\<dots> \<le> real_of_int k" using lo
    by (metis of_int_le_iff of_int_numeral of_int_power)
  also have "\<dots> \<le> x" by (simp add: k_def)
  finally have 1: "2 powi (exponent x) \<le> x" by (simp add: e)
  have "k + 1 \<le> 2 ^ nat (bitlen k)" using hi by simp
  then have "real_of_int (k + 1) \<le> 2 ^ nat (bitlen k)"
    by (metis of_int_le_iff of_int_numeral of_int_power)
  moreover have "x < real_of_int (k + 1)" by (simp add: k_def)
  moreover have "(2::real) powi (bitlen k - 1 + 1) = 2 ^ nat (bitlen k)"
    using b by (simp add: power_int_def)
  ultimately have 2: "x < 2 powi (exponent x + 1)" by (simp add: e)
  from 1 2 show ?thesis ..
next
  case False
  define y where "y = 1 / x"
  define j where "j = \<lceil>y\<rceil>"
  have y: "1 < y" using False assms by (simp add: y_def)
  have j: "0 < j - 1" using y by (simp add: j_def)
  have b: "1 \<le> bitlen (j - 1)" using j by (simp add: bitlen_alt_def)
  have e: "exponent x = - bitlen (j - 1)" using False by (simp add: exponent_def j_def y_def)
  from bitlen_bounds [OF j] have lo: "2 ^ nat (bitlen (j - 1) - 1) \<le> j - 1"
    and hi: "j - 1 < 2 ^ nat (bitlen (j - 1))"
    by simp_all
  have "j \<le> 2 ^ nat (bitlen (j - 1))" using hi by simp
  then have "real_of_int j \<le> 2 ^ nat (bitlen (j - 1))"
    by (metis of_int_le_iff of_int_numeral of_int_power)
  moreover have "y \<le> real_of_int j" by (simp add: j_def)
  ultimately have "y \<le> 2 ^ nat (bitlen (j - 1))" by linarith
  then have "1 / 2 ^ nat (bitlen (j - 1)) \<le> x"
    using assms by (simp add: y_def field_simps)
  moreover have "(2::real) powi (- bitlen (j - 1)) = 1 / 2 ^ nat (bitlen (j - 1))"
    using b by (simp add: power_int_def field_simps)
  ultimately have 1: "2 powi (exponent x) \<le> x" by (simp add: e)
  have "real_of_int (2 ^ nat (bitlen (j - 1) - 1)) \<le> real_of_int (j - 1)"
    using lo by (simp only: of_int_le_iff)
  moreover have "real_of_int (j - 1) < y" by (simp add: j_def) linarith
  ultimately have "2 ^ nat (bitlen (j - 1) - 1) < y" by simp
  then have "x < 1 / 2 ^ nat (bitlen (j - 1) - 1)"
    using assms by (simp add: y_def field_simps)
  moreover have "(2::real) powi (- bitlen (j - 1) + 1) = 1 / 2 ^ nat (bitlen (j - 1) - 1)"
  proof (cases "bitlen (j - 1) = 1")
    case True then show ?thesis by simp
  next
    case False
    with b have "- bitlen (j - 1) + 1 < 0" by simp
    then show ?thesis by (simp add: power_int_def field_simps nat_diff_distrib)
  qed
  ultimately have 2: "x < 2 powi (exponent x + 1)" by (simp add: e)
  from 1 2 show ?thesis ..
qed


lemma float64_zero: "float64 0 = 0"
  by (simp add: float64_def)

lemma float64_error:
  assumes "0 < x"
  shows "\<bar>float64 x - x\<bar> \<le> x / 2 ^ 53"
proof -
  define s :: real where "s = 2 powi (exponent x - 52)"
  have s: "0 < s" by (simp add: s_def)
  have f: "float64 x = real_of_int (round_half_even (x / s)) * s"
    using assms by (simp add: float64_def s_def Let_def)
  have "float64 x - x = (real_of_int (round_half_even (x / s)) - x / s) * s"
    using s by (simp add: f field_simps)
  then have "\<bar>float64 x - x\<bar> = \<bar>real_of_int (round_half_even (x / s)) - x / s\<bar> * s"
    using s by (simp add: abs_mult)
  also have "\<dots> \<le> 1 / 2 * s"
    using round_half_even_error [of "x / s"] s by (simp add: mult_right_mono)
  also have "\<dots> = 2 powi (exponent x) / 2 ^ 53"
    by (simp add: s_def power_int_diff)
  also have "\<dots> \<le> x / 2 ^ 53"
    using exponent_bounds [OF assms] by (simp add: divide_right_mono)
  finally show ?thesis .
qed

lemma float64_bounds:
  assumes "0 < x"
  shows "x * (1 - 1 / 2 ^ 53) \<le> float64 x" and "float64 x \<le> x * (1 + 1 / 2 ^ 53)"
proof -
  from float64_error [OF assms, unfolded abs_le_iff]
  have "float64 x - x \<le> x / 2 ^ 53" and "x - float64 x \<le> x / 2 ^ 53"
    by simp_all
  then show "x * (1 - 1 / 2 ^ 53) \<le> float64 x" and "float64 x \<le> x * (1 + 1 / 2 ^ 53)"
    by (simp_all add: algebra_simps)
qed

lemma float64_pos: "0 < x \<Longrightarrow> 0 < float64 x"
proof -
  assume x: "0 < x"
  then have "0 < x * (1 - 1 / 2 ^ 53)" by simp
  with float64_bounds(1) [OF x] show ?thesis by linarith
qed

lemma float64_product_bounds:
  assumes "0 < x" "0 < y"
  shows "x * y * (1 - 1 / 2 ^ 53) ^ 3 \<le> float64 (float64 x * float64 y)"
    and "float64 (float64 x * float64 y) \<le> x * y * (1 + 1 / 2 ^ 53) ^ 3"
proof -
  let ?lo = "1 - 1 / 2 ^ 53 :: real" and ?hi = "1 + 1 / 2 ^ 53 :: real"
  have lo: "0 < ?lo" and hi: "0 < ?hi" by simp_all
  note fx = float64_bounds [OF assms(1)] and fy = float64_bounds [OF assms(2)]
  have px: "0 < float64 x" and py: "0 < float64 y"
    using assms by (simp_all add: float64_pos)
  then have p: "0 < float64 x * float64 y" by simp
  have "(x * ?lo) * (y * ?lo) \<le> float64 x * float64 y"
    using fx(1) fy(1) assms lo by (intro mult_mono) simp_all
  then have "(x * ?lo) * (y * ?lo) * ?lo \<le> float64 x * float64 y * ?lo"
    using lo by (simp add: mult_right_mono)
  also have "\<dots> \<le> float64 (float64 x * float64 y)"
    by (rule float64_bounds(1) [OF p])
  finally show "x * y * ?lo ^ 3 \<le> float64 (float64 x * float64 y)"
    by (simp add: power3_eq_cube mult_ac)
  have "float64 x * float64 y \<le> (x * ?hi) * (y * ?hi)"
    using fx(2) fy(2) px py by (intro mult_mono) simp_all
  then have "float64 x * float64 y * ?hi \<le> (x * ?hi) * (y * ?hi) * ?hi"
    using hi by (simp add: mult_right_mono)
  with float64_bounds(2) [OF p]
  have "float64 (float64 x * float64 y) \<le> (x * ?hi) * (y * ?hi) * ?hi"
    by linarith
  then show "float64 (float64 x * float64 y) \<le> x * y * ?hi ^ 3"
    by (simp add: power3_eq_cube mult_ac)
qed

lemma length_linspace: "length (linspace a b k) = k"
  by (simp add: linspace_def)

lemma resample_audio_same_rate: "resample_audio audio r r = Inr audio"
  by (simp add: resample_audio_def)

lemma resample_audio_empty: "orig_sr \<noteq> target_sr \<Longrightarrow> \<exists>e. resample_audio [] orig_sr target_sr = Inl e"
  by (simp add: resample_audio_def Let_def)

lemma resample_audio_length:
  assumes "orig_sr \<noteq> target_sr" "orig_sr \<noteq> 0" "audio \<noteq> []"
    "0 \<le> new_length (length audio) orig_sr target_sr"
  shows "\<exists>out. resample_audio audio orig_sr target_sr = Inr out
           \<and> int (length out) = new_length (length audio) orig_sr target_sr"
  using assms by (simp add: resample_audio_def Let_def length_linspace)

lemma new_length_bounds:
  assumes "0 < A" "0 < B" "0 < n"
  shows "real n * (real_of_int B / real_of_int A) * (1 - 1 / 2 ^ 53) ^ 3 - 1
           < real_of_int (new_length n A B)"
    and "real_of_int (new_length n A B)
           \<le> real n * (real_of_int B / real_of_int A) * (1 + 1 / 2 ^ 53) ^ 3"
    and "0 \<le> new_length n A B"
proof -
  define p where "p = float64 (float64 (real n) * float64 (real_of_int B / real_of_int A))"
  have n: "0 < real n" and q: "0 < real_of_int B / real_of_int A"
    using assms by simp_all
  have pos: "0 < p"
    unfolding p_def using n q by (simp add: float64_pos)
  have nl: "new_length n A B = \<lfloor>p\<rfloor>"
    using pos by (simp add: new_length_def py_int_def p_def Let_def)
  from float64_product_bounds [OF n q]
  have lo: "real n * (real_of_int B / real_of_int A) * (1 - 1 / 2 ^ 53) ^ 3 \<le> p"
    and hi: "p \<le> real n * (real_of_int B / real_of_int A) * (1 + 1 / 2 ^ 53) ^ 3"
    by (simp_all add: p_def)
  have "p - 1 < real_of_int \<lfloor>p\<rfloor>" by linarith
  with lo show "real n * (real_of_int B / real_of_int A) * (1 - 1 / 2 ^ 53) ^ 3 - 1
           < real_of_int (new_length n A B)"
    unfolding nl by linarith
  have "real_of_int \<lfloor>p\<rfloor> \<le> p" by simp
  with hi show "real_of_int (new_length n A B)
           \<le> real n * (real_of_int B / real_of_int A) * (1 + 1 / 2 ^ 53) ^ 3"
    unfolding nl by linarith
  show "0 \<le> new_length n A B"
    unfolding nl using pos by simp
qed

lemma six_roundings_up: "2 ^ 50 * ((1 + 1 / 2 ^ 53) ^ 6 - 1) < (1::real)"
  by (simp add: power_divide)

lemma six_roundings_down: "2 ^ 50 * (1 - (1 - 1 / 2 ^ 53) ^ 6) < (1::real)"
  by (simp add: power_divide)


lemma round_trip_length_bounds:
  assumes A: "0 < A" and B: "0 < B" and n: "0 < n" "n \<le> 2 ^ 50"
    and mid: "0 < new_length n A B"
  shows "new_length (nat (new_length n A B)) B A \<le> int n"
    and "real n - real_of_int (new_length (nat (new_length n A B)) B A)
           < real_of_int A / real_of_int B + 2"
proof -
  define lo :: real where "lo = (1 - 1 / 2 ^ 53) ^ 3"
  define hi :: real where "hi = (1 + 1 / 2 ^ 53) ^ 3"
  define a where "a = real_of_int A / real_of_int B"
  define n1 where "n1 = new_length n A B"
  define n2 where "n2 = new_length (nat n1) B A"
  define x where "x = real n"
  have a: "0 < a" using A B by (simp add: a_def)
  have lo: "0 < lo" "lo \<le> 1" and hi: "0 < hi"
    by (simp_all add: lo_def hi_def power_divide)
  have x: "0 < x" "x \<le> 2 ^ 50"
    using n by (simp_all add: x_def)
  have up: "2 ^ 50 * (hi * hi - 1) < 1" and down: "2 ^ 50 * (1 - lo * lo) < 1"
    and hi1: "0 \<le> hi * hi - 1" and lo1: "0 \<le> 1 - lo * lo"
    by (simp_all add: lo_def hi_def power_divide)
  have n1: "x * (1 / a) * lo - 1 < real_of_int n1" "real_of_int n1 \<le> x * (1 / a) * hi"
    using new_length_bounds(1,2) [OF A B n(1)] by (simp_all add: n1_def a_def lo_def hi_def x_def)
  have m: "0 < nat n1" "real (nat n1) = real_of_int n1"
    using mid by (simp_all add: n1_def)
  have n2: "real_of_int n1 * a * lo - 1 < real_of_int n2" "real_of_int n2 \<le> real_of_int n1 * a * hi"
    using new_length_bounds(1,2) [OF B A m(1)] by (simp_all add: n2_def m(2) a_def lo_def hi_def)
  \<comment> \<open>the upper bound\<close>
  have "real_of_int n1 * (a * hi) \<le> (x * (1 / a) * hi) * (a * hi)"
    using n1(2) a hi by (intro mult_right_mono) simp_all
  also have "\<dots> = x * (hi * hi)"
    using a by simp
  finally have u1: "real_of_int n2 \<le> x * (hi * hi)"
    using n2(2) by (simp add: mult.assoc)
  have "x * (hi * hi - 1) \<le> 2 ^ 50 * (hi * hi - 1)"
    using x(2) hi1 by (rule mult_right_mono)
  with up have "x * (hi * hi) < x + 1"
    by (simp add: algebra_simps)
  with u1 have "real_of_int n2 < real n + 1"
    by (simp add: x_def)
  then have "n2 < int n + 1"
    by (metis of_int_less_iff of_int_add of_int_of_nat_eq of_int_1)
  then show "new_length (nat (new_length n A B)) B A \<le> int n"
    by (simp add: n2_def n1_def)
  \<comment> \<open>the lower bound\<close>
  have "(x * (1 / a) * lo - 1) * (a * lo) \<le> real_of_int n1 * (a * lo)"
    using n1(1) a lo by (intro mult_right_mono) simp_all
  moreover have "(x * (1 / a) * lo - 1) * (a * lo) = x * (lo * lo) - a * lo"
    using a by (simp add: algebra_simps)
  moreover have "a * lo \<le> a"
    using a lo by simp
  ultimately have l1: "x * (lo * lo) - a - 1 < real_of_int n2"
    using n2(1) by (simp add: mult.assoc)
  have "x * (1 - lo * lo) \<le> 2 ^ 50 * (1 - lo * lo)"
    using x(2) lo1 by (rule mult_right_mono)
  with down have "x - 1 < x * (lo * lo)"
    by (simp add: algebra_simps)
  with l1 have "real n - real_of_int n2 < a + 2"
    by (simp add: x_def)
  then show "real n - real_of_int (new_length (nat (new_length n A B)) B A)
           < real_of_int A / real_of_int B + 2"
    by (simp add: n2_def n1_def a_def)
qed

lemma resample_audio_result:
  assumes "A \<noteq> B" "resample_audio audio A B = Inr mid"
  shows "audio \<noteq> []" and "int (length mid) = new_length (length audio) A B"
  using assms
  by (auto simp: resample_audio_def Let_def length_linspace split: if_splits)

section \<open>Facts about the audio ingest pipeline\<close>

text \<open>Three one-sample frames and the values that enter their classification.\<close>

lemma speech_threshold_value: "speech_threshold = 3602879701896397 / 72057594037927936"
  unfolding speech_threshold_def by code_simp


lemma to_int16_values: "to_int16 (1 / 2) = 16383" "to_int16 0 = 0"
  by code_simp+

lemma exact_clock_differences:
  "float64 1 = 1" "float64 2 = 2" "float64 (3 / 2) = 3 / 2" "float64 (1 / 64) = 1 / 64"
  "float64 (63 / 64) = 63 / 64" "float64 (95 / 64) = 95 / 64"
  "float64 (127 / 64) = 127 / 64" "float64 (319 / 64) = 319 / 64"
  "float64 (97 / 64) = 97 / 64"
  by code_simp+

lemma rms_energy_loud: "rms_energy seq_mean [1 / 2] = Energy (1 / 2)"
proof -
  have m: "seq_mean [float64 ((1 / 2)\<^sup>2)] = (1 / 2)\<^sup>2"
    by code_simp
  have f: "float64 (1 / 2) = 1 / 2"
    by code_simp
  show ?thesis
    unfolding rms_energy_def by (simp only: list.simps m real_sqrt_abs) (simp add: f)
qed

lemma rms_energy_faint: "rms_energy seq_mean [1 / 64] = Energy (1 / 64)"
proof -
  have m: "seq_mean [float64 ((1 / 64)\<^sup>2)] = (1 / 64)\<^sup>2"
    by code_simp
  have f: "float64 (1 / 64) = 1 / 64"
    by code_simp
  show ?thesis
    unfolding rms_energy_def by (simp only: list.simps m real_sqrt_abs) (simp add: f)
qed

lemma rms_energy_zero: "rms_energy seq_mean [0] = Energy 0"
proof -
  have m: "seq_mean [float64 (0\<^sup>2)] = 0"
    by code_simp
  show ?thesis
    unfolding rms_energy_def by (simp only: list.simps m) (simp add: float64_zero)
qed

lemma detect_speech_eq:
  "detect_speech np_mean x = energy_gt (rms_energy np_mean x) speech_threshold"
  by (simp add: detect_speech_def detect_speech_run_def rms_energy_def energy_gt_def Let_def)

lemma detect_speech_frames:
  "detect_speech seq_mean [1 / 2]" "\<not> detect_speech seq_mean [0]"
  "\<not> detect_speech seq_mean [1 / 64]"
  by (simp_all add: detect_speech_eq rms_energy_loud rms_energy_zero rms_energy_faint
      energy_gt_def speech_threshold_value)

lemma process_audio_track_append:
  "process_audio_track np_mean cfg a (xs @ ys) =
     process_audio_track np_mean cfg (process_audio_track np_mean cfg a xs) ys"
  by (induction xs arbitrary: a) auto

lemma process_frame_speaking:
  "process_frame np_mean cfg (a\<lparr>state := SPEAKING\<rparr>) t x =
     a\<lparr>state := SPEAKING, audio_buffer := audio_buffer a @ [map to_int16 x]\<rparr>"
  by (simp add: process_frame_def Let_def)

lemma process_frame_speech:
  "st \<noteq> SPEAKING \<Longrightarrow> detect_speech np_mean x \<Longrightarrow>
   process_frame np_mean cfg (a\<lparr>state := st\<rparr>) t x =
     a\<lparr>state := st, audio_buffer := audio_buffer a @ [map to_int16 x],
        last_speech_time := t, is_speaking := True,
        speech_buffer := (if is_speaking a then speech_buffer a else []) @ [map to_int16 x]\<rparr>"
  by (simp add: process_frame_def Let_def)

lemma process_frame_silent:
  "\<not> detect_speech np_mean x \<Longrightarrow>
   process_frame np_mean cfg (a\<lparr>state := st\<rparr>) t x =
     (if st \<noteq> SPEAKING \<and> is_speaking a
         \<and> silence_duration cfg \<le> float64 (t - last_speech_time a)
      then a\<lparr>state := st, is_speaking := False, spawned := spawned a + 1, audio_buffer := []\<rparr>
      else a\<lparr>state := st, audio_buffer := audio_buffer a @ [map to_int16 x]\<rparr>)"
  by (simp add: process_frame_def Let_def)

text \<open>
  A run of frames classified as speech, none of them handled while Speaking, leaves the
  agent in speech mode with the clock reading of the last frame, creates no task and
  appends the frames of the run to the utterance buffer (emptied first when the run
  starts the speech).
\<close>

lemma speech_phase:
  "sp \<noteq> [] \<Longrightarrow> \<forall>(st, t, x) \<in> set sp. st \<noteq> SPEAKING \<and> detect_speech np_mean x \<Longrightarrow>
   is_speaking (process_audio_track np_mean cfg a sp)
   \<and> last_speech_time (process_audio_track np_mean cfg a sp) = fst (snd (last sp))
   \<and> spawned (process_audio_track np_mean cfg a sp) = spawned a
   \<and> speech_buffer (process_audio_track np_mean cfg a sp) =
       (if is_speaking a then speech_buffer a else []) @ map (\<lambda>(st, t, x). map to_int16 x) sp"
proof (induction sp arbitrary: a)
  case Nil
  then show ?case by simp
next
  case (Cons f sp)
  obtain st t x where f: "f = (st, t, x)"
    by (cases f)
  from Cons.prems f have h: "st \<noteq> SPEAKING" "detect_speech np_mean x"
    by auto
  show ?case
  proof (cases "sp = []")
    case True
    then show ?thesis
      using f h by (simp add: process_frame_speech)
  next
    case False
    from Cons.prems have "\<forall>(st, t, x) \<in> set sp. st \<noteq> SPEAKING \<and> detect_speech np_mean x"
      by simp
    from Cons.IH [OF False this] show ?thesis
      using False f h by (simp add: process_frame_speech)
  qed
qed

text \<open>
  A run of frames classified as silence creates one task when the agent is in speech
  mode and some frame of the run, handled outside Speaking, has a clock reading whose
  binary64 difference from the last speech frame's is at least the configured silence
  duration; otherwise none. It leaves speech mode exactly then, and never touches the
  utterance buffer.
\<close>

lemma silent_phase:
  "\<forall>(st, t, x) \<in> set sil. \<not> detect_speech np_mean x \<Longrightarrow>
   spawned (process_audio_track np_mean cfg b sil) =
     spawned b +
     (if is_speaking b \<and>
         (\<exists>(st, t, x) \<in> set sil.
             st \<noteq> SPEAKING \<and> silence_duration cfg \<le> float64 (t - last_speech_time b))
      then 1 else 0)
   \<and> is_speaking (process_audio_track np_mean cfg b sil) =
       (is_speaking b \<and>
        \<not> (\<exists>(st, t, x) \<in> set sil.
             st \<noteq> SPEAKING \<and> silence_duration cfg \<le> float64 (t - last_speech_time b)))
   \<and> speech_buffer (process_audio_track np_mean cfg b sil) = speech_buffer b"
proof (induction sil arbitrary: b)
  case Nil
  then show ?case by simp
next
  case (Cons f sil)
  obtain st t x where f: "f = (st, t, x)"
    by (cases f)
  from Cons.prems f have h: "\<not> detect_speech np_mean x"
    by auto
  from Cons.prems have r: "\<forall>(st, t, x) \<in> set sil. \<not> detect_speech np_mean x"
    by simp
  show ?case
    using Cons.IH [OF r] f h by (simp add: process_frame_silent)
qed



text \<open>
  The value that \<open>float64\<close> returns: the multiple of the unit of the binade that lies
  less than half a unit from the argument.
\<close>

lemma round_half_even_unique:
  "\<bar>m - real_of_int k\<bar> < 1 / 2 \<Longrightarrow> round_half_even m = k"
proof -
  assume h: "\<bar>m - real_of_int k\<bar> < 1 / 2"
  show ?thesis
  proof (cases "real_of_int k \<le> m")
    case True
    with h have "\<lfloor>m\<rfloor> = k"
      by (intro floor_unique) (simp_all add: abs_less_iff)
    with h True show ?thesis
      by (simp add: round_half_even_def Let_def abs_less_iff)
  next
    case False
    with h have f: "\<lfloor>m\<rfloor> = k - 1"
      by (intro floor_unique) (simp_all add: abs_less_iff)
    from h False have "1 / 2 < m - real_of_int (k - 1)"
      by (simp add: abs_less_iff)
    with f show ?thesis
      by (simp add: round_half_even_def Let_def)
  qed
qed

lemma exponent_unique:
  assumes "2 powi e \<le> y" "y < 2 powi (e + 1)"
  shows "exponent y = e"
proof -
  have pos: "0 < y"
    using assms(1) by (rule less_le_trans [rotated]) simp
  from exponent_bounds [OF pos]
  have lo: "2 powi (exponent y) \<le> y" and hi: "y < 2 powi (exponent y + 1)"
    by simp_all
  have "\<not> exponent y < e"
  proof
    assume "exponent y < e"
    then have "(2::real) powi (exponent y + 1) \<le> 2 powi e"
      by (intro power_int_increasing) simp_all
    with hi assms(1) show False by linarith
  qed
  moreover have "\<not> e < exponent y"
  proof
    assume "e < exponent y"
    then have "(2::real) powi (e + 1) \<le> 2 powi (exponent y)"
      by (intro power_int_increasing) simp_all
    with lo assms(2) show False by linarith
  qed
  ultimately show ?thesis by linarith
qed

lemma float64_nearest:
  assumes "2 powi e \<le> y" "y < 2 powi (e + 1)"
    and "\<bar>y / 2 powi (e - 52) - real_of_int k\<bar> < 1 / 2"
  shows "float64 y = real_of_int k * 2 powi (e - 52)"
proof -
  have pos: "0 < y"
    using assms(1) by (rule less_le_trans [rotated]) simp
  have "exponent y = e"
    using assms(1,2) by (rule exponent_unique)
  moreover have "round_half_even (y / 2 powi (e - 52)) = k"
    using assms(3) by (rule round_half_even_unique)
  ultimately show ?thesis
    using pos by (simp add: float64_def Let_def)
qed

text \<open>
  The frame whose one sample is the binary64 value of 0.05: its square, rounded, has a
  square root that rounds back to the sample, so the energy equals the threshold and
  the frame is not speech.
\<close>

lemma rms_energy_boundary: "rms_energy seq_mean [float64 (5 / 100)] = Energy (float64 (5 / 100))"
proof -
  have x: "float64 (5 / 100) = 3602879701896397 / 72057594037927936"
    by code_simp
  have m: "seq_mean [float64 ((3602879701896397 / 72057594037927936)\<^sup>2)]
      = 1441151880758559 / 576460752303423488"
    by code_simp
  let ?q = "1441151880758559 / 576460752303423488 :: real"
  have lo: "(7205759403792794 - 1 / 2) / 2 ^ 57 < sqrt ?q"
    by (rule real_less_rsqrt) (simp add: power_divide)
  have hi: "sqrt ?q < (7205759403792794 + 1 / 2) / 2 ^ 57"
    by (rule real_less_lsqrt) (simp_all add: power_divide)
  have e1: "2 powi (- 5) \<le> sqrt ?q"
    using lo by (simp add: power_int_minus_divide)
  have e2: "sqrt ?q < 2 powi (- 5 + 1)"
    using hi by (simp add: power_int_minus_divide)
  have s: "sqrt ?q / 2 powi (- 5 - 52) = sqrt ?q * 2 ^ 57"
    by (simp add: power_int_minus_divide)
  have "7205759403792794 - 1 / 2 < sqrt ?q * 2 ^ 57" "sqrt ?q * 2 ^ 57 < 7205759403792794 + 1 / 2"
    using lo hi by (simp_all add: field_simps)
  then have "\<bar>sqrt ?q / 2 powi (- 5 - 52) - real_of_int 7205759403792794\<bar> < 1 / 2"
    unfolding s abs_less_iff by simp
  from float64_nearest [OF e1 e2 this]
  have "float64 (sqrt ?q) = 3602879701896397 / 72057594037927936"
    by (simp add: power_int_minus_divide)
  then show ?thesis
    unfolding rms_energy_def x by (simp only: list.simps m) simp
qed

lemma boundary_frame_is_silence: "\<not> detect_speech seq_mean [float64 (5 / 100)]"
  unfolding detect_speech_eq rms_energy_boundary energy_gt_def speech_threshold_def by simp

section \<open>Claims about voice activity detection\<close>

text \<open>
  C10: for the empty frame \<open>_detect_speech\<close> returns False without evaluating the
  root-mean-square energy, so the classification is total and the energy it evaluates is
  never the undefined value: the result on the empty frame is False and no energy was
  assigned, and on no frame is the assigned energy not a number.
\<close>

theorem detect_speech_empty_frame:
  "detect_speech np_mean [] = False
   \<and> detect_speech_run np_mean [] = (False, None)
   \<and> (\<forall>x. snd (detect_speech_run np_mean x) \<noteq> Some NaN)"
  by (simp add: detect_speech_def detect_speech_run_def rms_energy_def Let_def)



section \<open>Claims about utterance segmentation\<close>

text \<open>
  C3, as stated: at most one utterance is in flight at a time, and a frame that arrives
  while the state is Processing only appends to the rolling buffer: no speech-start, no
  append to the utterance buffer, no flush. The loop skips the detection in the state
  Speaking only. With the state Processing, a speech frame marks a speech-start and
  enters the utterance buffer, and the silent frame two seconds later creates a turn
  task; after an utterance flushed while Connected, a second one is flushed while the
  first is still Processing.
\<close>

theorem vad_runs_while_processing_counterexample:
  "is_speaking (process_frame seq_mean default_config
       ((init_agent False False False)\<lparr>state := PROCESSING\<rparr>) 1 [1 / 2])
   \<and> speech_buffer (process_frame seq_mean default_config
       ((init_agent False False False)\<lparr>state := PROCESSING\<rparr>) 1 [1 / 2]) = [[16383]]
   \<and> spawned (process_audio_track seq_mean default_config (init_agent False False False)
       [(PROCESSING, 1, [1 / 2]), (PROCESSING, 3, [0])]) = 1
   \<and> spawned (process_audio_track seq_mean default_config (init_agent False False False)
       [(CONNECTED, 0, [1 / 2]), (CONNECTED, 2, [0]),
        (PROCESSING, 3, [1 / 2]), (PROCESSING, 5, [0])]) = 2"
  by (simp add: process_frame_def detect_speech_frames to_int16_values
      exact_clock_differences init_agent_def default_config_def Let_def)

text \<open>
  C3, amended: while the state is Speaking, an inbound frame only appends to the rolling
  buffer; it marks no speech-start, does not touch the utterance buffer and triggers no
  flush. While the state is Processing a frame is handled exactly as while Connected,
  so it may mark a speech-start, enter the utterance buffer and trigger a flush.
\<close>

theorem vad_suspended_only_while_speaking:
  "(state a = SPEAKING \<longrightarrow>
      process_frame np_mean cfg a t x = a\<lparr>audio_buffer := audio_buffer a @ [map to_int16 x]\<rparr>)
   \<and> process_frame np_mean cfg (a\<lparr>state := PROCESSING\<rparr>) t x
       = (process_frame np_mean cfg (a\<lparr>state := CONNECTED\<rparr>) t x)\<lparr>state := PROCESSING\<rparr>"
  by (simp add: process_frame_def Let_def)

theorem vad_suspended_only_while_speaking_witness:
  "process_frame seq_mean default_config
       ((init_agent False False False)\<lparr>state := SPEAKING\<rparr>) 1 [1 / 2]
     = (init_agent False False False)\<lparr>state := SPEAKING, audio_buffer := [[16383]]\<rparr>
   \<and> is_speaking (process_frame seq_mean default_config
         ((init_agent False False False)\<lparr>state := CONNECTED\<rparr>) 1 [1 / 2])"
  using vad_suspended_only_while_speaking
    [of "(init_agent False False False)\<lparr>state := SPEAKING\<rparr>" seq_mean default_config 1 "[1 / 2]"]
  by (simp add: process_frame_def detect_speech_frames to_int16_values init_agent_def Let_def)

text \<open>
  C5, as stated: for every speech run followed by below-threshold frames spanning the
  configured silence duration, the one flush occurs at or after the moment the elapsed
  silence reaches \<open>silence_duration\<close> and never before it. Two things in the source
  stand against "never before". Detection is off while the state is Speaking: loud
  frames handled then do not refresh the time of the last speech, and after loud frames
  at 0 (Processing, an earlier turn in flight), 1 and 3/2 (Speaking) the silent frame at
  97/64, one 64th of a second after the last loud one, flushes. And the silence is the binary64 difference of two
  clock readings: after a loud frame at \<open>1/2 + 2\<^sup>-\<^sup>5\<^sup>3\<close> the silent frame at 2 comes
  less than 3/2 later, its difference rounds to 3/2, and it flushes.
\<close>

theorem flush_before_silence_duration_counterexample:
  "97 / 64 - 3 / 2 < silence_duration default_config
   \<and> spawned (process_audio_track seq_mean default_config (init_agent False False False)
       [(PROCESSING, 0, [1 / 2]), (SPEAKING, 1, [1 / 2]), (SPEAKING, 3 / 2, [1 / 2]),
        (CONNECTED, 97 / 64, [0])]) = 1
   \<and> 2 - (1 / 2 + 1 / 2 ^ 53) < silence_duration default_config
   \<and> spawned (process_audio_track seq_mean default_config (init_agent False False False)
       [(CONNECTED, 1 / 2 + 1 / 2 ^ 53, [1 / 2]), (CONNECTED, 2, [0])]) = 1"
proof -
  have r: "float64 (13510798882111487 / 9007199254740992) = 3 / 2"
    by code_simp
  have s: "silence_duration default_config = 3 / 2"
    by (simp add: default_config_def)
  have 1: "spawned (process_audio_track seq_mean default_config (init_agent False False False)
       [(PROCESSING, 0, [1 / 2]), (SPEAKING, 1, [1 / 2]), (SPEAKING, 3 / 2, [1 / 2]),
        (CONNECTED, 97 / 64, [0])]) = 1"
    by (simp add: process_frame_def detect_speech_frames to_int16_values
        exact_clock_differences s init_agent_def Let_def)
  have 2: "spawned (process_audio_track seq_mean default_config (init_agent False False False)
       [(CONNECTED, 1 / 2 + 1 / 2 ^ 53, [1 / 2]), (CONNECTED, 2, [0])]) = 1"
    by (simp add: process_frame_def detect_speech_frames to_int16_values r s
        init_agent_def Let_def)
  show ?thesis
    using 1 2 by (simp add: s)
qed

text \<open>
  C5, amended: for every run of frames classified as speech while the state is not
  Speaking, followed by below-threshold frames, exactly one flush occurs: at the first
  below-threshold frame, handled outside Speaking, whose clock reading minus that of the
  last speech frame, as the binary64 subtraction gives it, is at least
  \<open>silence_duration\<close>, and at no earlier frame; later frames of the same silence
  produce no further flush, and the utterance buffer that the flush hands over holds
  the frames of the run. Below, \<open>sp\<close> is the speech run and \<open>sil\<close> any list of frames
  classified as silence: over the whole run one turn task is created if some frame of
  \<open>sil\<close> meets the condition and none otherwise, the agent leaves speech mode exactly
  then, and the utterance buffer is the one before the run (empty unless the agent was
  already in speech mode) followed by the quantised frames of \<open>sp\<close>. As \<open>sil\<close> is any
  list, this holds of every prefix of a silence.
\<close>

theorem one_flush_after_silence:
  assumes "sp \<noteq> []"
    and "\<forall>(st, t, x) \<in> set sp. st \<noteq> SPEAKING \<and> detect_speech np_mean x"
    and "\<forall>(st, t, x) \<in> set sil. \<not> detect_speech np_mean x"
  shows "spawned (process_audio_track np_mean cfg a (sp @ sil)) =
      spawned a +
      (if \<exists>(st, t, x) \<in> set sil.
            st \<noteq> SPEAKING \<and> silence_duration cfg \<le> float64 (t - fst (snd (last sp)))
       then 1 else 0)
    \<and> is_speaking (process_audio_track np_mean cfg a (sp @ sil)) =
      (\<not> (\<exists>(st, t, x) \<in> set sil.
            st \<noteq> SPEAKING \<and> silence_duration cfg \<le> float64 (t - fst (snd (last sp)))))
    \<and> speech_buffer (process_audio_track np_mean cfg a (sp @ sil)) =
      (if is_speaking a then speech_buffer a else []) @ map (\<lambda>(st, t, x). map to_int16 x) sp"
proof -
  let ?b = "process_audio_track np_mean cfg a sp"
  from speech_phase [OF assms(1,2), of cfg a]
  have b: "is_speaking ?b" "last_speech_time ?b = fst (snd (last sp))" "spawned ?b = spawned a"
    "speech_buffer ?b =
       (if is_speaking a then speech_buffer a else []) @ map (\<lambda>(st, t, x). map to_int16 x) sp"
    by simp_all
  from silent_phase [OF assms(3), of cfg ?b] b show ?thesis
    by (simp add: process_audio_track_append)
qed

theorem one_flush_after_silence_witness:
  "spawned (process_audio_track seq_mean default_config (init_agent False False False)
       ([(CONNECTED, 0, [1 / 2]), (CONNECTED, 1 / 64, [1 / 2])]
        @ [(CONNECTED, 1, [0]), (CONNECTED, 3 / 2, [0])])) = 0
   \<and> is_speaking (process_audio_track seq_mean default_config (init_agent False False False)
       ([(CONNECTED, 0, [1 / 2]), (CONNECTED, 1 / 64, [1 / 2])]
        @ [(CONNECTED, 1, [0]), (CONNECTED, 3 / 2, [0])]))
   \<and> spawned (process_audio_track seq_mean default_config (init_agent False False False)
       ([(CONNECTED, 0, [1 / 2]), (CONNECTED, 1 / 64, [1 / 2])]
        @ [(CONNECTED, 1, [0]), (CONNECTED, 3 / 2, [0]), (CONNECTED, 97 / 64, [0]),
           (CONNECTED, 2, [0]), (CONNECTED, 5, [0])])) = 1
   \<and> \<not> is_speaking (process_audio_track seq_mean default_config (init_agent False False False)
       ([(CONNECTED, 0, [1 / 2]), (CONNECTED, 1 / 64, [1 / 2])]
        @ [(CONNECTED, 1, [0]), (CONNECTED, 3 / 2, [0]), (CONNECTED, 97 / 64, [0]),
           (CONNECTED, 2, [0]), (CONNECTED, 5, [0])]))
   \<and> speech_buffer (process_audio_track seq_mean default_config (init_agent False False False)
       ([(CONNECTED, 0, [1 / 2]), (CONNECTED, 1 / 64, [1 / 2])]
        @ [(CONNECTED, 1, [0]), (CONNECTED, 3 / 2, [0]), (CONNECTED, 97 / 64, [0]),
           (CONNECTED, 2, [0]), (CONNECTED, 5, [0])])) = [[16383], [16383]]"
  using one_flush_after_silence
    [of "[(CONNECTED, 0, [1 / 2]), (CONNECTED, 1 / 64, [1 / 2])]" seq_mean
        "[(CONNECTED, 1, [0]), (CONNECTED, 3 / 2, [0])]"
        default_config "init_agent False False False"]
    one_flush_after_silence
    [of "[(CONNECTED, 0, [1 / 2]), (CONNECTED, 1 / 64, [1 / 2])]" seq_mean
        "[(CONNECTED, 1, [0]), (CONNECTED, 3 / 2, [0]), (CONNECTED, 97 / 64, [0]),
          (CONNECTED, 2, [0]), (CONNECTED, 5, [0])]"
        default_config "init_agent False False False"]
  by (simp add: detect_speech_frames exact_clock_differences to_int16_values
      default_config_def init_agent_def)

section \<open>Claims about resampling\<close>

text \<open>
  C8, as stated: for every sample array and every pair of positive rates, resampling
  from A to B and back yields an array whose length equals the original length within
  rounding tolerance. A one-sample array resampled from 48000 to 16000 becomes the empty
  array, and resampling the empty array back raises, so the round trip yields no array.
  Where it does return, the loss is not bounded by a unit: five samples become one at
  16000 and three back at 48000.
\<close>

theorem resample_round_trip_counterexample:
  "resample_audio [1 / 2] 48000 16000 = Inr []
   \<and> resample_audio [] 16000 48000 = Inl ValueError
   \<and> new_length 5 48000 16000 = 1
   \<and> new_length 1 16000 48000 = 3"
  by code_simp

text \<open>
  C8, amended: for equal rates the function returns its input unchanged. For different
  rates the result has \<open>int(len(audio) * (target_sr / orig_sr))\<close> samples, and the empty
  array raises. For positive rates A and B and an array of at most \<open>2\<^sup>5\<^sup>0\<close> samples,
  when the resampling from A to B returns a non-empty array, the resampling back returns
  an array that is not longer than the original and shorter by less than \<open>A / B + 2\<close>
  samples: the loss of the two truncations and of the six binary64 roundings.
\<close>

theorem resample_round_trip:
  "resample_audio audio A A = Inr audio
   \<and> (A \<noteq> B \<longrightarrow> (\<exists>e. resample_audio [] A B = Inl e))
   \<and> (A \<noteq> B \<and> resample_audio audio A B = Inr mid \<longrightarrow>
        int (length mid) = new_length (length audio) A B)
   \<and> (0 < A \<and> 0 < B \<and> length audio \<le> 2 ^ 50
        \<and> resample_audio audio A B = Inr mid \<and> mid \<noteq> [] \<longrightarrow>
        (\<exists>out. resample_audio mid B A = Inr out
           \<and> length out \<le> length audio
           \<and> real (length audio) - real (length out) < real_of_int A / real_of_int B + 2))"
proof (intro conjI impI)
  show "resample_audio audio A A = Inr audio"
    by (rule resample_audio_same_rate)
next
  assume "A \<noteq> B"
  then show "\<exists>e. resample_audio [] A B = Inl e"
    by (rule resample_audio_empty)
next
  assume "A \<noteq> B \<and> resample_audio audio A B = Inr mid"
  then show "int (length mid) = new_length (length audio) A B"
    using resample_audio_result [of A B audio mid] by simp
next
  assume h: "0 < A \<and> 0 < B \<and> length audio \<le> 2 ^ 50
        \<and> resample_audio audio A B = Inr mid \<and> mid \<noteq> []"
  show "\<exists>out. resample_audio mid B A = Inr out
           \<and> length out \<le> length audio
           \<and> real (length audio) - real (length out) < real_of_int A / real_of_int B + 2"
  proof (cases "A = B")
    case True
    with h have "mid = audio"
      by (simp add: resample_audio_same_rate)
    with True h show ?thesis
      by (simp add: resample_audio_same_rate)
  next
    case False
    with h resample_audio_result [of A B audio mid]
    have au: "audio \<noteq> []" and lm: "int (length mid) = new_length (length audio) A B"
      by simp_all
    from h lm have pos: "0 < new_length (length audio) A B"
      by (cases mid) simp_all
    from au have n: "0 < length audio"
      by simp
    from h have A: "0 < A" and B: "0 < B" and le: "length audio \<le> 2 ^ 50" and m: "mid \<noteq> []"
      by simp_all
    from lm have nm: "length mid = nat (new_length (length audio) A B)"
      by simp
    from m have "0 < length mid"
      by simp
    from new_length_bounds(3) [OF B A this]
    have "0 \<le> new_length (length mid) B A" .
    with resample_audio_length [of B A mid] False B m
    obtain out where out: "resample_audio mid B A = Inr out"
      "int (length out) = new_length (length mid) B A"
      by auto
    from round_trip_length_bounds [OF A B n le pos]
    have "length out \<le> length audio"
      "real (length audio) - real (length out) < real_of_int A / real_of_int B + 2"
      unfolding nm [symmetric] out(2) [symmetric] by simp_all
    with out(1) show ?thesis
      by blast
  qed
qed

theorem resample_round_trip_witness:
  "\<exists>out. resample_audio
            (map (interp_at [0, 1 / 2, 1, 1 / 2, 0, - 1 / 2]) (linspace 0 5 18)) 48000 16000
          = Inr out
      \<and> length out \<le> length [0, 1 / 2, 1, 1 / 2, 0, - 1 / 2 :: real]
      \<and> real (length [0, 1 / 2, 1, 1 / 2, 0, - 1 / 2 :: real]) - real (length out)
          < 16000 / 48000 + 2"
proof -
  have nl: "new_length (length [0, 1 / 2, 1, 1 / 2, 0, - 1 / 2 :: real]) 16000 48000 = 18"
    by code_simp
  have mid: "resample_audio [0, 1 / 2, 1, 1 / 2, 0, - 1 / 2] 16000 48000
      = Inr (map (interp_at [0, 1 / 2, 1, 1 / 2, 0, - 1 / 2]) (linspace 0 5 18))"
    unfolding resample_audio_def Let_def nl by simp
  have ne: "map (interp_at [0, 1 / 2, 1, 1 / 2, 0, - 1 / 2]) (linspace 0 5 18) \<noteq> []"
    by (simp add: linspace_def)
  from resample_round_trip [of "[0, 1 / 2, 1, 1 / 2, 0, - 1 / 2]" 16000 48000
      "map (interp_at [0, 1 / 2, 1, 1 / 2, 0, - 1 / 2]) (linspace 0 5 18)"] mid ne
  show ?thesis
    by simp
qed

end
